theory Spec2Isabelle
  imports Main "HOL-Library.Word"
begin

section \<open>The leveled console logger of wabarc/logger (logger.go)\<close>

text \<open>
  The package keeps two variables, \<open>logLevel\<close> and \<open>showTime\<close>, and writes lines to the
  standard error stream. The model passes them around as a record, together with the
  chunks written to the stream so far. What the Go runtime and the libraries supply (the
  clock, the call stack, the function table, the colour switch of fatih/color and the
  formatter behind \<open>fmt.Fprintf\<close>) is an explicit environment handed to every call.
\<close>

subsection \<open>Levels\<close>

text \<open>\<open>type LogLevel uint32\<close>, with the constants numbered by \<open>iota\<close>.\<close>

type_synonym LogLevel = "32 word"

definition LevelFatal :: LogLevel where "LevelFatal = 0"
definition LevelError :: LogLevel where "LevelError = 1"
definition LevelWarn :: LogLevel where "LevelWarn = 2"
definition LevelInfo :: LogLevel where "LevelInfo = 3"
definition LevelDebug :: LogLevel where "LevelDebug = 4"

text \<open>\<open>func (l LogLevel) String() string\<close>: the switch, in the order of its cases.\<close>

definition LogLevel_String :: "LogLevel \<Rightarrow> string" where
  "LogLevel_String l =
     (if l = LevelDebug then ''DEBUG''
      else if l = LevelInfo then ''INFO''
      else if l = LevelWarn then ''WARN''
      else if l = LevelError then ''ERROR''
      else if l = LevelFatal then ''FATAL''
      else ''UNKNOWN'')"

subsection \<open>Decimal numbers\<close>

text \<open>The verb \<open>%d\<close> on an \<open>int\<close>, and the zero-padded fields of a time layout.\<close>

definition digit :: "nat \<Rightarrow> char" where
  "digit n = ''0123456789'' ! (n mod 10)"

function nat_digits :: "nat \<Rightarrow> string" where
  "nat_digits n = (if n < 10 then [digit n] else nat_digits (n div 10) @ [digit n])"
  by pat_completeness auto
termination
  by (relation "measure (\<lambda>n. n)") auto

declare nat_digits.simps [simp del]

definition itoa :: "int \<Rightarrow> string" where
  "itoa i = (if i < 0 then CHR ''-'' # nat_digits (nat (- i)) else nat_digits (nat i))"

definition pad :: "nat \<Rightarrow> nat \<Rightarrow> string" where
  "pad w n = replicate (w - length (nat_digits n)) CHR ''0'' @ nat_digits n"

subsection \<open>The clock\<close>

text \<open>
  \<open>time.Now()\<close> in the local zone, as its calendar fields, and
  \<open>Format("2006-01-02T15:04:05")\<close>: year on four digits, the other fields on two.
\<close>

record local_time =
  t_year :: nat
  t_month :: nat
  t_day :: nat
  t_hour :: nat
  t_minute :: nat
  t_second :: nat

definition time_Format :: "local_time \<Rightarrow> string" where
  "time_Format t =
     pad 4 (t_year t) @ ''-'' @ pad 2 (t_month t) @ ''-'' @ pad 2 (t_day t) @ ''T'' @
     pad 2 (t_hour t) @ '':'' @ pad 2 (t_minute t) @ '':'' @ pad 2 (t_second t)"

subsection \<open>Colours (github.com/fatih/color)\<close>

text \<open>
  \<open>color.XString(format, a...)\<close> formats its operands and, unless \<open>color.NoColor\<close> is
  set, wraps the text between the escape sequence of the attribute and the reset
  sequence. Every call of the package passes either no operand or the format \<open>%s\<close> with
  one string (or one \<open>LogLevel\<close>, printed through its \<open>String\<close> method), so the text
  wrapped is that string.
\<close>

datatype Attribute = FgRed | FgYellow | FgBlue | FgMagenta | FgCyan | FgWhite | FgHiRed

fun sgr :: "Attribute \<Rightarrow> string" where
  "sgr FgRed = ''31''"
| "sgr FgYellow = ''33''"
| "sgr FgBlue = ''34''"
| "sgr FgMagenta = ''35''"
| "sgr FgCyan = ''36''"
| "sgr FgWhite = ''37''"
| "sgr FgHiRed = ''91''"

definition escape :: string where
  "escape = [CHR 0x1B]"

definition color_wrap :: "bool \<Rightarrow> Attribute \<Rightarrow> string \<Rightarrow> string" where
  "color_wrap noColor a s =
     (if noColor then s else escape @ ''['' @ sgr a @ ''m'' @ s @ escape @ ''[0m'')"

text \<open>
  \<open>var colorable = map[LogLevel]string{...}\<close>, built once when the package is
  initialised, so with the value \<open>color.NoColor\<close> has at that moment.
\<close>

definition colorable :: "bool \<Rightarrow> LogLevel \<rightharpoonup> string" where
  "colorable noColor =
     [LevelFatal \<mapsto> color_wrap noColor FgRed (LogLevel_String LevelFatal),
      LevelError \<mapsto> color_wrap noColor FgHiRed (LogLevel_String LevelError),
      LevelWarn \<mapsto> color_wrap noColor FgYellow (LogLevel_String LevelWarn),
      LevelInfo \<mapsto> color_wrap noColor FgBlue (LogLevel_String LevelInfo),
      LevelDebug \<mapsto> color_wrap noColor FgWhite (LogLevel_String LevelDebug)]"

text \<open>Reading a Go map at a key it does not hold gives the zero value, the empty string.\<close>

definition map_index :: "('k \<rightharpoonup> string) \<Rightarrow> 'k \<Rightarrow> string" where
  "map_index m k = (case m k of None \<Rightarrow> [] | Some s \<Rightarrow> s)"

subsection \<open>The runtime: call stack and function table\<close>

record frame =
  frame_pc :: nat
  frame_file :: string
  frame_line :: int

text \<open>
  \<open>runtime.Caller(skip)\<close> over the frames of the goroutine as \<open>logging\<close> sees them,
  innermost first (frame 0 is \<open>logging\<close> itself). Beyond the stack it reports
  \<open>(0, "", 0, false)\<close>.
\<close>

definition runtime_Caller :: "frame list \<Rightarrow> nat \<Rightarrow> nat \<times> string \<times> int \<times> bool" where
  "runtime_Caller stk skip =
     (if skip < length stk
      then (frame_pc (stk ! skip), frame_file (stk ! skip), frame_line (stk ! skip), True)
      else (0, [], 0, False))"

text \<open>\<open>runtime.FuncForPC(pc)\<close> is nil when no function holds \<open>pc\<close>, as for \<open>pc = 0\<close>.\<close>

definition runtime_FuncForPC :: "(nat \<rightharpoonup> string) \<Rightarrow> nat \<Rightarrow> string option" where
  "runtime_FuncForPC tbl p = (if p = 0 then None else tbl p)"

text \<open>\<open>(*Func).Name\<close> returns the empty string on a nil receiver.\<close>

definition Func_Name :: "string option \<Rightarrow> string" where
  "Func_Name f = (case f of None \<Rightarrow> [] | Some n \<Rightarrow> n)"

subsection \<open>Strings and slices\<close>

text \<open>
  \<open>strings.Split(s, sep)\<close> for a separator of one byte, which is how both calls of the
  package use it: cut at the first separator, and go on with the rest.
\<close>

function strings_Split :: "string \<Rightarrow> char \<Rightarrow> string list" where
  "strings_Split s sep =
     (case dropWhile (\<lambda>c. c \<noteq> sep) s of
        [] \<Rightarrow> [s]
      | _ # rest \<Rightarrow> takeWhile (\<lambda>c. c \<noteq> sep) s # strings_Split rest sep)"
  by pat_completeness auto
termination
proof (relation "measure (\<lambda>(s, sep). length s)")
  show "wf (measure (\<lambda>(s, sep). length s))" by simp
next
  fix s :: string and sep x21 x22
  assume "dropWhile (\<lambda>c. c \<noteq> sep) s = x21 # x22"
  then have "length (dropWhile (\<lambda>c. c \<noteq> sep) s) = Suc (length x22)" by simp
  moreover have "length (dropWhile (\<lambda>c. c \<noteq> sep) s) \<le> length s"
    by (rule length_dropWhile_le)
  ultimately show "((x22, sep), (s, sep)) \<in> measure (\<lambda>(s, sep). length s)" by simp
qed

declare strings_Split.simps [simp del]

text \<open>
  A run-time panic: a slice read out of range, or a value raised by a method of an
  operand that \<open>fmt\<close> lets through.
\<close>

datatype panic = IndexOutOfRange | Raised string

text \<open>\<open>xs[i]\<close> on a slice: a run-time panic when the index is out of range.\<close>

definition index :: "'a list \<Rightarrow> int \<Rightarrow> panic + 'a" where
  "index xs i = (if 0 \<le> i \<and> i < int (length xs) then Inr (xs ! nat i) else Inl IndexOutOfRange)"

subsection \<open>Environment and state\<close>

text \<open>
  What a call of \<open>logging\<close> reads from outside the package: the local time, the switch
  \<open>color.NoColor\<close> as it stands now and as it stood when the package was initialised,
  the frames of the goroutine, the function table behind \<open>runtime.FuncForPC\<close>, and the
  formatter behind \<open>fmt.Fprintf\<close>, for operands of type \<open>'a\<close>. The formatter has two
  parts: \<open>Fprintf\<close> is the text it builds from a format and operands (bad verbs and
  operands are reported inside that text), and \<open>Fprintf_panic\<close> is the panic it lets
  through instead, if any. \<open>fmt\<close> recovers a panic of an operand's \<open>String\<close> or \<open>Error\<close>
  method and prints the value raised; when printing that value panics in turn, the
  second panic is raised again and leaves \<open>Fprintf\<close> before anything is written.

  The state is the two package variables and the chunks written to \<open>os.Stderr\<close>, oldest
  first.
\<close>

record 'a env =
  now :: local_time
  NoColor :: bool
  NoColorInit :: bool
  stack :: "frame list"
  funcs :: "nat \<rightharpoonup> string"
  Fprintf :: "string \<Rightarrow> 'a list \<Rightarrow> string"
  Fprintf_panic :: "string \<Rightarrow> 'a list \<Rightarrow> panic option"

record state =
  logLevel :: LogLevel
  showTime :: bool
  stderr :: "string list"

text \<open>\<open>var logLevel = LevelInfo\<close>, \<open>var showTime = true\<close>, and nothing written yet.\<close>

definition init_state :: state where
  "init_state = \<lparr>logLevel = LevelInfo, showTime = True, stderr = []\<rparr>"

text \<open>
  The call \<open>fmt.Fprintf(os.Stderr, format, v...)\<close>: the text to write, or the panic that
  leaves the call. With no operand no method runs, so there is nothing to panic.
\<close>

definition fmt_Fprintf :: "'a env \<Rightarrow> string \<Rightarrow> 'a list \<Rightarrow> panic + string" where
  "fmt_Fprintf e format v =
     (if v = [] then Inr (Fprintf e format v)
      else (case Fprintf_panic e format v of
              Some err \<Rightarrow> Inl err
            | None \<Rightarrow> Inr (Fprintf e format v)))"

subsection \<open>logging\<close>

text \<open>The local variable \<open>prefix\<close> of \<open>logging\<close> (lines 118 to 124).\<close>

definition logging_prefix :: "'a env \<Rightarrow> state \<Rightarrow> LogLevel \<Rightarrow> string" where
  "logging_prefix e st l =
     (if showTime st
      then ''['' @ color_wrap (NoColor e) FgCyan (time_Format (now e)) @ ''] ['' @
           map_index (colorable (NoColorInit e)) l @ ''] ''
      else ''['' @ map_index (colorable (NoColorInit e)) l @ ''] '')"

text \<open>The local variable \<open>caller\<close> of \<open>logging\<close> (lines 126 to 132).\<close>

definition logging_caller :: "'a env \<Rightarrow> panic + string" where
  "logging_caller e =
     (case runtime_Caller (stack e) 2 of (p, file, line, _) \<Rightarrow>
        let files = strings_Split file CHR ''/'' in
        case index files (int (length files) - 1) of
          Inl err \<Rightarrow> Inl err
        | Inr file' \<Rightarrow>
            let name = Func_Name (runtime_FuncForPC (funcs e) p);
                fns = strings_Split name CHR ''.'' in
            case index fns (int (length fns) - 1) of
              Inl err \<Rightarrow> Inl err
            | Inr name' \<Rightarrow>
                Inr (''['' @ color_wrap (NoColor e) FgMagenta file' @ '':'' @ itoa line @ '':'' @
                     color_wrap (NoColor e) FgMagenta name' @ ''] ''))"

text \<open>
  \<open>logging\<close>: one write to the error stream of what the formatter makes of
  \<open>prefix+caller+format+"\n"\<close> and the operands. A panic of the formatter leaves
  \<open>logging\<close> before the write. The result of the write is dropped.
\<close>

definition logging :: "'a env \<Rightarrow> state \<Rightarrow> LogLevel \<Rightarrow> string \<Rightarrow> 'a list \<Rightarrow> panic + state" where
  "logging e st l format v =
     (case logging_caller e of
        Inl err \<Rightarrow> Inl err
      | Inr caller \<Rightarrow>
          (case fmt_Fprintf e (logging_prefix e st l @ caller @ format @ [CHR 0x0A]) v of
             Inl err \<Rightarrow> Inl err
           | Inr text \<Rightarrow> Inr (st\<lparr>stderr := stderr st @ [text]\<rparr>)))"

subsection \<open>The public operations\<close>

text \<open>
  A call returns with the new state, ends the process with an exit status (\<open>os.Exit\<close>),
  or panics into its caller, leaving the state the package had at that moment.
\<close>

datatype outcome = Return state | Exit int state | Panic panic state

definition returning :: "state \<Rightarrow> panic + state \<Rightarrow> outcome" where
  "returning st r = (case r of Inl err \<Rightarrow> Panic err st | Inr st' \<Rightarrow> Return st')"

definition DisableTime :: "state \<Rightarrow> state" where
  "DisableTime st = st\<lparr>showTime := False\<rparr>"

definition EnableDebug :: "'a env \<Rightarrow> state \<Rightarrow> outcome" where
  "EnableDebug e st =
     returning (st\<lparr>logLevel := LevelDebug\<rparr>)
       (logging e (st\<lparr>logLevel := LevelDebug\<rparr>) LevelInfo ''Debug mode enabled'' [])"

definition SetLogLevel :: "LogLevel \<Rightarrow> state \<Rightarrow> state" where
  "SetLogLevel l st = st\<lparr>logLevel := l\<rparr>"

definition Debug :: "'a env \<Rightarrow> state \<Rightarrow> string \<Rightarrow> 'a list \<Rightarrow> outcome" where
  "Debug e st format v =
     (if logLevel st \<ge> LevelDebug then returning st (logging e st LevelDebug format v)
      else Return st)"

definition Info :: "'a env \<Rightarrow> state \<Rightarrow> string \<Rightarrow> 'a list \<Rightarrow> outcome" where
  "Info e st format v =
     (if logLevel st \<ge> LevelInfo then returning st (logging e st LevelInfo format v)
      else Return st)"

definition Warn :: "'a env \<Rightarrow> state \<Rightarrow> string \<Rightarrow> 'a list \<Rightarrow> outcome" where
  "Warn e st format v =
     (if logLevel st \<ge> LevelWarn then returning st (logging e st LevelWarn format v)
      else Return st)"

definition Error :: "'a env \<Rightarrow> state \<Rightarrow> string \<Rightarrow> 'a list \<Rightarrow> outcome" where
  "Error e st format v =
     (if logLevel st \<ge> LevelError then returning st (logging e st LevelError format v)
      else Return st)"

definition Fatal :: "'a env \<Rightarrow> state \<Rightarrow> string \<Rightarrow> 'a list \<Rightarrow> outcome" where
  "Fatal e st format v =
     (if logLevel st \<ge> LevelFatal
      then (case logging e st LevelFatal format v of
              Inl err \<Rightarrow> Panic err st
            | Inr st' \<Rightarrow> Exit 1 st')
      else Return st)"

subsection \<open>Programs using the package\<close>

text \<open>
  A client is a sequence of calls of the public operations, each made in the environment
  of its moment. A run stops at the call that ends the process, and at a call that
  panics.
\<close>

datatype 'a call =
    CallDisableTime
  | CallEnableDebug
  | CallSetLogLevel LogLevel
  | CallDebug string "'a list"
  | CallInfo string "'a list"
  | CallWarn string "'a list"
  | CallError string "'a list"
  | CallFatal string "'a list"

fun step :: "'a env \<Rightarrow> state \<Rightarrow> 'a call \<Rightarrow> outcome" where
  "step e st CallDisableTime = Return (DisableTime st)"
| "step e st CallEnableDebug = EnableDebug e st"
| "step e st (CallSetLogLevel l) = Return (SetLogLevel l st)"
| "step e st (CallDebug format v) = Debug e st format v"
| "step e st (CallInfo format v) = Info e st format v"
| "step e st (CallWarn format v) = Warn e st format v"
| "step e st (CallError format v) = Error e st format v"
| "step e st (CallFatal format v) = Fatal e st format v"

fun run :: "state \<Rightarrow> ('a env \<times> 'a call) list \<Rightarrow> outcome" where
  "run st [] = Return st"
| "run st ((e, c) # cs) =
     (case step e st c of
        Return st' \<Rightarrow> run st' cs
      | Exit n st' \<Rightarrow> Exit n st'
      | Panic err st' \<Rightarrow> Panic err st')"

text \<open>The state a call leaves behind.\<close>

fun final :: "outcome \<Rightarrow> state option" where
  "final (Return st) = Some st"
| "final (Exit n st) = Some st"
| "final (Panic err st) = Some st"

subsection \<open>The last segment, as the specification words it\<close>

text \<open>
  The specification speaks of the last segment of a path or of a qualified name: what
  follows the last separator, and the whole string when it holds no separator.
\<close>

definition last_segment :: "char \<Rightarrow> string \<Rightarrow> string" where
  "last_segment sep s = rev (takeWhile (\<lambda>c. c \<noteq> sep) (rev s))"

fun strings_Join :: "string list \<Rightarrow> char \<Rightarrow> string" where
  "strings_Join [] sep = []"
| "strings_Join [x] sep = x"
| "strings_Join (x # y # ys) sep = x @ sep # strings_Join (y # ys) sep"

subsection \<open>A formatter for concrete runs\<close>

text \<open>
  The scan of \<open>fmt\<close>'s \<open>doPrintf\<close> on the plain fragment of its language: literal text,
  \<open>%%\<close>, and a verb right after the percent sign. A verb takes the next operand; a verb
  with no operand left prints \<open>%!verb(MISSING)\<close>, a percent sign at the end
  \<open>%!(NOVERB)\<close>, operands left over \<open>%!(EXTRA type=value, ...)\<close>. Flags, widths,
  precisions, operand indexes and the verbs other than \<open>s\<close>, \<open>d\<close> and \<open>v\<close> are outside
  the fragment; the concrete runs below stay inside it.

  The operands are strings, ints, and values of a struct type \<open>main.T\<close> without fields
  that has a \<open>String\<close> method. The method returns a string or panics. Under \<open>s\<close> and
  \<open>v\<close> \<open>fmt\<close> calls it, and recovers its panic: a string raised is printed as
  \<open>%!verb(PANIC=String method: text)\<close>; an error value raised whose own \<open>Error\<close> method
  panics makes \<open>fmt\<close> raise that second panic again, out of the formatter. A verb the
  operand does not accept prints \<open>%!verb(type=value)\<close>, without calling the method.
\<close>

datatype thrown = ThrownString string | ThrownBadError string

datatype stringer = Yields string | Throws thrown

datatype operand = StringArg string | IntArg int | StringerArg stringer

fun typeName :: "operand \<Rightarrow> string" where
  "typeName (StringArg s) = ''string''"
| "typeName (IntArg i) = ''int''"
| "typeName (StringerArg m) = ''main.T''"

fun printArg :: "operand \<Rightarrow> char \<Rightarrow> panic + string" where
  "printArg (StringArg s) verb =
     Inr (if verb = CHR ''v'' \<or> verb = CHR ''s'' then s
          else ''%!'' @ [verb] @ ''(string='' @ s @ '')'')"
| "printArg (IntArg i) verb =
     Inr (if verb = CHR ''v'' \<or> verb = CHR ''d'' then itoa i
          else ''%!'' @ [verb] @ ''(int='' @ itoa i @ '')'')"
| "printArg (StringerArg m) verb =
     (if verb = CHR ''v'' \<or> verb = CHR ''s''
      then (case m of
              Yields s \<Rightarrow> Inr s
            | Throws (ThrownString t) \<Rightarrow>
                Inr (''%!'' @ [verb] @ ''(PANIC=String method: '' @ t @ '')'')
            | Throws (ThrownBadError t) \<Rightarrow> Inl (Raised t))
      else Inr (''%!'' @ [verb] @ ''(main.T={})''))"

text \<open>Text in front of what the rest of the scan gives, unless the rest panics.\<close>

definition prepend :: "string \<Rightarrow> panic + string \<Rightarrow> panic + string" where
  "prepend s r = (case r of Inl err \<Rightarrow> Inl err | Inr t \<Rightarrow> Inr (s @ t))"

definition extraItem :: "operand \<Rightarrow> panic + string" where
  "extraItem x = prepend (typeName x @ ''='') (printArg x CHR ''v'')"

fun extraList :: "operand list \<Rightarrow> panic + string" where
  "extraList [] = Inr []"
| "extraList [x] = extraItem x"
| "extraList (x # y # ys) =
     (case extraItem x of
        Inl err \<Rightarrow> Inl err
      | Inr s \<Rightarrow> prepend (s @ '', '') (extraList (y # ys)))"

definition extraArgs :: "operand list \<Rightarrow> panic + string" where
  "extraArgs a =
     (if a = [] then Inr []
      else (case extraList a of
              Inl err \<Rightarrow> Inl err
            | Inr s \<Rightarrow> Inr (''%!(EXTRA '' @ s @ '')'')))"

fun doPrintf :: "string \<Rightarrow> operand list \<Rightarrow> panic + string" where
  "doPrintf [] a = extraArgs a"
| "doPrintf [c] a =
     (if c = CHR ''%'' then prepend ''%!(NOVERB)'' (extraArgs a) else prepend [c] (extraArgs a))"
| "doPrintf (c # verb # rest) a =
     (if c \<noteq> CHR ''%'' then prepend [c] (doPrintf (verb # rest) a)
      else if verb = CHR ''%'' then prepend ''%'' (doPrintf rest a)
      else (case a of
              [] \<Rightarrow> prepend (''%!'' @ [verb] @ ''(MISSING)'') (doPrintf rest [])
            | x # xs \<Rightarrow>
                (case printArg x verb of
                   Inl err \<Rightarrow> Inl err
                 | Inr s \<Rightarrow> prepend s (doPrintf rest xs))))"

text \<open>The two parts of this formatter, as an environment holds them.\<close>

definition doPrintf_text :: "string \<Rightarrow> operand list \<Rightarrow> string" where
  "doPrintf_text format a = (case doPrintf format a of Inl err \<Rightarrow> [] | Inr s \<Rightarrow> s)"

definition doPrintf_panic :: "string \<Rightarrow> operand list \<Rightarrow> panic option" where
  "doPrintf_panic format a = (case doPrintf format a of Inl err \<Rightarrow> Some err | Inr s \<Rightarrow> None)"

subsection \<open>The line, as the specification words it\<close>

text \<open>
  The specification gives the line, colours ignored, as
  \<open>[<timestamp>] [<LEVEL>] [<file>:<line>:<func>] <message>\<close> and a newline, the first
  group left out when timestamps are off. The message is the caller's format with the
  operands substituted; the newline follows it.
\<close>

definition spec_line :: "'a env \<Rightarrow> state \<Rightarrow> LogLevel \<Rightarrow> string \<Rightarrow> 'a list \<Rightarrow> string" where
  "spec_line e st l format v =
     (if showTime st then ''['' @ time_Format (now e) @ ''] '' else []) @
     ''['' @ LogLevel_String l @ ''] '' @
     (case runtime_Caller (stack e) 2 of (p, path, line, _) \<Rightarrow>
        ''['' @ last_segment CHR ''/'' path @ '':'' @ itoa line @ '':'' @
        last_segment CHR ''.'' (Func_Name (runtime_FuncForPC (funcs e) p)) @ ''] '') @
     Fprintf e format v @ [CHR 0x0A]"

subsection \<open>Observations and concrete environments\<close>

text \<open>
  A call emits when it leaves the state as it was but for one more chunk on the error
  stream; the exit status is that of the process, when the call ended it.
\<close>

definition emits :: "state \<Rightarrow> outcome \<Rightarrow> bool" where
  "emits st out =
     (case final out of
        None \<Rightarrow> False
      | Some st' \<Rightarrow>
          st' = st\<lparr>stderr := stderr st'\<rparr> \<and>
          length (stderr st') = Suc (length (stderr st)) \<and>
          butlast (stderr st') = stderr st)"

fun exit_status :: "outcome \<Rightarrow> int option" where
  "exit_status (Exit n st) = Some n"
| "exit_status (Return st) = None"
| "exit_status (Panic err st) = None"

text \<open>Two environments that differ at most in what their clocks show.\<close>

definition same_but_clock :: "'a env \<Rightarrow> 'a env \<Rightarrow> bool" where
  "same_but_clock e e' = (e' = e\<lparr>now := now e'\<rparr>)"

text \<open>
  A call of a level-named operation from line 7 of \<open>main.go\<close>, in \<open>main.main\<close>, on the
  morning of 7 March 2021, with colours off; the same with colours on; the same from a
  file whose name holds a percent sign; and one where the runtime knows no caller.
\<close>

definition demo_time :: local_time where
  "demo_time =
     \<lparr>t_year = 2021, t_month = 3, t_day = 7, t_hour = 9, t_minute = 5, t_second = 0\<rparr>"

definition demo_funcs :: "nat \<rightharpoonup> string" where
  "demo_funcs =
     [11 \<mapsto> ''github.com/wabarc/logger.logging'',
      12 \<mapsto> ''github.com/wabarc/logger.Info'',
      13 \<mapsto> ''main.main'']"

definition demo_stack :: "string \<Rightarrow> frame list" where
  "demo_stack file =
     [\<lparr>frame_pc = 11, frame_file = ''/go/src/logger/logger.go'', frame_line = 126\<rparr>,
      \<lparr>frame_pc = 12, frame_file = ''/go/src/logger/logger.go'', frame_line = 91\<rparr>,
      \<lparr>frame_pc = 13, frame_file = file, frame_line = 7\<rparr>]"

definition demo_env :: "operand env" where
  "demo_env =
     \<lparr>now = demo_time, NoColor = True, NoColorInit = True,
      stack = demo_stack ''/home/dev/app/main.go'', funcs = demo_funcs,
      Fprintf = doPrintf_text, Fprintf_panic = doPrintf_panic\<rparr>"

definition color_env :: "operand env" where
  "color_env = demo_env\<lparr>NoColor := False, NoColorInit := False\<rparr>"

definition percent_env :: "operand env" where
  "percent_env = demo_env\<lparr>stack := demo_stack ''/home/dev/app/a%d.go''\<rparr>"

definition lost_env :: "operand env" where
  "lost_env = demo_env\<lparr>stack := []\<rparr>"

text \<open>
  An operand whose \<open>String\<close> method panics with an error value whose \<open>Error\<close> method
  panics with the string \<open>inner\<close>; and one whose \<open>String\<close> method panics with a string.
\<close>

definition bad_operand :: operand where
  "bad_operand = StringerArg (Throws (ThrownBadError ''inner''))"


section \<open>Supporting lemmas\<close>

lemmas Level_defs = LevelFatal_def LevelError_def LevelWarn_def LevelInfo_def LevelDebug_def

lemma last_segment_no_sep: "sep \<notin> set (last_segment sep s)"
  unfolding last_segment_def
  by (auto dest: set_takeWhileD)

lemma takeWhile_all: "\<forall>x\<in>set xs. P x \<Longrightarrow> takeWhile P xs = xs"
  by (simp add: takeWhile_eq_all_conv)

lemma last_segment_whole: "sep \<notin> set s \<Longrightarrow> last_segment sep s = s"
  unfolding last_segment_def
  by (subst takeWhile_all) auto

lemma last_segment_suffix:
  "\<exists>pre. s = pre @ last_segment sep s \<and> (pre = [] \<or> last pre = sep)"
proof -
  let ?P = "\<lambda>c. c \<noteq> sep"
  let ?pre = "rev (dropWhile ?P (rev s))"
  have "?pre @ last_segment sep s = rev (takeWhile ?P (rev s) @ dropWhile ?P (rev s))"
    unfolding last_segment_def by (simp only: rev_append)
  also have "\<dots> = s"
    by (simp only: takeWhile_dropWhile_id rev_rev_ident)
  finally have eq: "s = ?pre @ last_segment sep s" by simp
  have "?pre = [] \<or> last ?pre = sep"
  proof (cases "dropWhile ?P (rev s)")
    case Nil
    then show ?thesis by simp
  next
    case (Cons x xs)
    then have "\<not> ?P x" using hd_dropWhile [of ?P "rev s"] by simp
    with Cons show ?thesis by simp
  qed
  with eq show ?thesis by blast
qed

lemma last_segment_after_sep: "last_segment sep (xs @ sep # ys) = last_segment sep ys"
  unfolding last_segment_def
  by (simp add: takeWhile_append takeWhile_all)

lemma strings_Split_whole:
  "dropWhile (\<lambda>c. c \<noteq> sep) s = [] \<Longrightarrow> strings_Split s sep = [s]"
  by (simp only: strings_Split.simps [of s sep] list.case)

lemma strings_Split_cut:
  "dropWhile (\<lambda>c. c \<noteq> sep) s = x # rest \<Longrightarrow>
   strings_Split s sep = takeWhile (\<lambda>c. c \<noteq> sep) s # strings_Split rest sep"
  by (simp only: strings_Split.simps [of s sep] list.case)

lemma strings_Split_last:
  "strings_Split s sep \<noteq> [] \<and> last (strings_Split s sep) = last_segment sep s"
proof (induction s sep rule: strings_Split.induct)
  case (1 s sep)
  show ?case
  proof (cases "dropWhile (\<lambda>c. c \<noteq> sep) s")
    case Nil
    then have "sep \<notin> set s" by (auto simp: dropWhile_eq_Nil_conv)
    with strings_Split_whole [OF Nil] show ?thesis
      by (simp add: last_segment_whole)
  next
    case (Cons x rest)
    then have x: "x = sep" using hd_dropWhile [of "\<lambda>c. c \<noteq> sep" s] by simp
    have "s = takeWhile (\<lambda>c. c \<noteq> sep) s @ dropWhile (\<lambda>c. c \<noteq> sep) s" by simp
    with Cons x have s: "s = takeWhile (\<lambda>c. c \<noteq> sep) s @ sep # rest" by simp
    have "last_segment sep s = last_segment sep rest"
      by (subst s) (rule last_segment_after_sep)
    with strings_Split_cut [OF Cons] "1.IH" [OF Cons] show ?thesis
      by simp
  qed
qed

lemma strings_Split_Join: "strings_Join (strings_Split s sep) sep = s"
proof (induction s sep rule: strings_Split.induct)
  case (1 s sep)
  show ?case
  proof (cases "dropWhile (\<lambda>c. c \<noteq> sep) s")
    case Nil
    then show ?thesis by (simp add: strings_Split_whole)
  next
    case (Cons x rest)
    then have x: "x = sep" using hd_dropWhile [of "\<lambda>c. c \<noteq> sep" s] by simp
    have "s = takeWhile (\<lambda>c. c \<noteq> sep) s @ dropWhile (\<lambda>c. c \<noteq> sep) s" by simp
    with Cons x have s: "takeWhile (\<lambda>c. c \<noteq> sep) s @ sep # rest = s" by simp
    obtain y ys where ne: "strings_Split rest sep = y # ys"
      using strings_Split_last [of rest sep] by (cases "strings_Split rest sep") auto
    with strings_Split_cut [OF Cons] "1.IH" [OF Cons] s show ?thesis
      by simp
  qed
qed

lemma index_last: "xs \<noteq> [] \<Longrightarrow> index xs (int (length xs) - 1) = Inr (last xs)"
  by (cases xs rule: rev_cases) (auto simp: index_def nth_append)

lemma logging_caller_eq:
  "logging_caller e =
     (case runtime_Caller (stack e) 2 of (p, file, line, _) \<Rightarrow>
        Inr (''['' @ color_wrap (NoColor e) FgMagenta (last_segment CHR ''/'' file) @ '':'' @
             itoa line @ '':'' @
             color_wrap (NoColor e) FgMagenta
               (last_segment CHR ''.'' (Func_Name (runtime_FuncForPC (funcs e) p))) @ ''] ''))"
  unfolding logging_caller_def
  by (simp add: Let_def index_last strings_Split_last split: prod.splits)

lemma logging_caller_total: "\<exists>c. logging_caller e = Inr c"
  by (simp add: logging_caller_eq split: prod.splits)

lemma strings_Split_segments: "\<forall>x \<in> set (strings_Split s sep). sep \<notin> set x"
proof (induction s sep rule: strings_Split.induct)
  case (1 s sep)
  show ?case
  proof (cases "dropWhile (\<lambda>c. c \<noteq> sep) s")
    case Nil
    then have "sep \<notin> set s" by (auto simp: dropWhile_eq_Nil_conv)
    with strings_Split_whole [OF Nil] show ?thesis by simp
  next
    case (Cons x rest)
    have "sep \<notin> set (takeWhile (\<lambda>c. c \<noteq> sep) s)"
      by (auto dest: set_takeWhileD)
    with strings_Split_cut [OF Cons] "1.IH" [OF Cons] show ?thesis by simp
  qed
qed



lemma digit_no_percent: "digit n \<noteq> CHR ''%''"
proof -
  have "digit n \<in> set ''0123456789''"
    unfolding digit_def by (rule nth_mem) simp
  then show ?thesis by auto
qed

lemma nat_digits_no_percent: "CHR ''%'' \<notin> set (nat_digits n)"
proof (induction n rule: nat_digits.induct)
  case (1 n)
  show ?case
  proof (cases "n < 10")
    case True
    then show ?thesis
      using digit_no_percent [of n] by (simp add: nat_digits.simps [of n])
  next
    case False
    with "1.IH" digit_no_percent [of n] show ?thesis
      by (simp add: nat_digits.simps [of n])
  qed
qed

lemma itoa_no_percent: "CHR ''%'' \<notin> set (itoa i)"
  by (simp add: itoa_def nat_digits_no_percent)

lemma pad_no_percent: "CHR ''%'' \<notin> set (pad w n)"
  by (simp add: pad_def nat_digits_no_percent)

lemma time_Format_no_percent: "CHR ''%'' \<notin> set (time_Format t)"
  by (simp add: time_Format_def pad_no_percent)

lemma LogLevel_String_no_percent: "CHR ''%'' \<notin> set (LogLevel_String l)"
  by (simp add: LogLevel_String_def)

lemma fmt_Fprintf_no_operands: "fmt_Fprintf e format [] = Inr (Fprintf e format [])"
  by (simp add: fmt_Fprintf_def)

lemma fmt_Fprintf_quiet:
  "Fprintf_panic e format v = None \<Longrightarrow> fmt_Fprintf e format v = Inr (Fprintf e format v)"
  by (simp add: fmt_Fprintf_def)


lemma logging_eq:
  "\<exists>c. logging_caller e = Inr c \<and>
     logging e st l format v =
       (case fmt_Fprintf e (logging_prefix e st l @ c @ format @ [CHR 0x0A]) v of
          Inl err \<Rightarrow> Inl err
        | Inr text \<Rightarrow> Inr (st\<lparr>stderr := stderr st @ [text]\<rparr>))"
proof -
  obtain c where "logging_caller e = Inr c" using logging_caller_total by blast
  then show ?thesis by (simp add: logging_def)
qed

lemma logging_cases:
  "(\<exists>err. logging e st l format v = Inl err) \<or>
   (\<exists>ln. logging e st l format v = Inr (st\<lparr>stderr := stderr st @ [ln]\<rparr>))"
proof -
  obtain c where eq: "logging e st l format v =
       (case fmt_Fprintf e (logging_prefix e st l @ c @ format @ [CHR 0x0A]) v of
          Inl err \<Rightarrow> Inl err
        | Inr text \<Rightarrow> Inr (st\<lparr>stderr := stderr st @ [text]\<rparr>))"
    using logging_eq [of e st l format v] by blast
  show ?thesis
    unfolding eq
    by (cases "fmt_Fprintf e (logging_prefix e st l @ c @ format @ [CHR 0x0A]) v") auto
qed

lemma emits_Return_append: "emits st (Return (st\<lparr>stderr := stderr st @ [ln]\<rparr>))"
  by (simp add: emits_def)

lemma emits_Exit_append: "emits st (Exit n (st\<lparr>stderr := stderr st @ [ln]\<rparr>))"
  by (simp add: emits_def)

lemma not_emits_Return: "\<not> emits st (Return st)"
  by (simp add: emits_def)

lemma not_emits_Panic: "\<not> emits st (Panic err st)"
  by (simp add: emits_def)

lemma append_one_not_same: "st\<lparr>stderr := stderr st @ [ln]\<rparr> \<noteq> st"
proof
  assume "st\<lparr>stderr := stderr st @ [ln]\<rparr> = st"
  then have "stderr (st\<lparr>stderr := stderr st @ [ln]\<rparr>) = stderr st" by simp
  then show False by simp
qed

text \<open>What a gated call of \<open>logging\<close> comes to, with the continuation of the wrapper.\<close>

lemma gated_outcome:
  assumes "out =
      (if g then (case r of Inl err \<Rightarrow> Panic err st
                  | Inr ln \<Rightarrow> Return (st\<lparr>stderr := stderr st @ [ln]\<rparr>))
       else Return st)"
  shows "(emits st out \<longleftrightarrow> g \<and> (\<exists>ln. r = Inr ln)) \<and> (out = Return st \<longleftrightarrow> \<not> g)"
proof (cases g)
  case False
  with assms show ?thesis by (simp add: not_emits_Return)
next
  case True
  show ?thesis
  proof (cases r)
    case (Inl err)
    with True assms show ?thesis by (simp add: not_emits_Panic)
  next
    case (Inr ln)
    with True assms append_one_not_same [of st ln] show ?thesis
      by (simp add: emits_Return_append)
  qed
qed

lemma Debug_pinned:
  "logging_caller e = Inr c \<Longrightarrow>
   Debug e st format v =
     (if unat LevelDebug \<le> unat (logLevel st)
      then (case fmt_Fprintf e (logging_prefix e st LevelDebug @ c @ format @ [CHR 0x0A]) v of
              Inl err \<Rightarrow> Panic err st
            | Inr ln \<Rightarrow> Return (st\<lparr>stderr := stderr st @ [ln]\<rparr>))
      else Return st)"
  by (simp add: Debug_def logging_def returning_def word_le_nat_alt split: sum.splits)

lemma Info_pinned:
  "logging_caller e = Inr c \<Longrightarrow>
   Info e st format v =
     (if unat LevelInfo \<le> unat (logLevel st)
      then (case fmt_Fprintf e (logging_prefix e st LevelInfo @ c @ format @ [CHR 0x0A]) v of
              Inl err \<Rightarrow> Panic err st
            | Inr ln \<Rightarrow> Return (st\<lparr>stderr := stderr st @ [ln]\<rparr>))
      else Return st)"
  by (simp add: Info_def logging_def returning_def word_le_nat_alt split: sum.splits)

lemma Warn_pinned:
  "logging_caller e = Inr c \<Longrightarrow>
   Warn e st format v =
     (if unat LevelWarn \<le> unat (logLevel st)
      then (case fmt_Fprintf e (logging_prefix e st LevelWarn @ c @ format @ [CHR 0x0A]) v of
              Inl err \<Rightarrow> Panic err st
            | Inr ln \<Rightarrow> Return (st\<lparr>stderr := stderr st @ [ln]\<rparr>))
      else Return st)"
  by (simp add: Warn_def logging_def returning_def word_le_nat_alt split: sum.splits)

lemma Error_pinned:
  "logging_caller e = Inr c \<Longrightarrow>
   Error e st format v =
     (if unat LevelError \<le> unat (logLevel st)
      then (case fmt_Fprintf e (logging_prefix e st LevelError @ c @ format @ [CHR 0x0A]) v of
              Inl err \<Rightarrow> Panic err st
            | Inr ln \<Rightarrow> Return (st\<lparr>stderr := stderr st @ [ln]\<rparr>))
      else Return st)"
  by (simp add: Error_def logging_def returning_def word_le_nat_alt split: sum.splits)

lemma Fatal_pinned:
  "logging_caller e = Inr c \<Longrightarrow>
   Fatal e st format v =
     (case fmt_Fprintf e (logging_prefix e st LevelFatal @ c @ format @ [CHR 0x0A]) v of
        Inl err \<Rightarrow> Panic err st
      | Inr ln \<Rightarrow> Exit 1 (st\<lparr>stderr := stderr st @ [ln]\<rparr>))"
  by (simp add: Fatal_def logging_def LevelFatal_def split: sum.splits)

lemma Debug_outcome:
  "Debug e st format v = Return st \<or> (\<exists>err. Debug e st format v = Panic err st) \<or>
   (\<exists>ln. Debug e st format v = Return (st\<lparr>stderr := stderr st @ [ln]\<rparr>))"
  using logging_cases [of e st LevelDebug format v]
  by (auto simp: Debug_def returning_def)

lemma Info_outcome:
  "Info e st format v = Return st \<or> (\<exists>err. Info e st format v = Panic err st) \<or>
   (\<exists>ln. Info e st format v = Return (st\<lparr>stderr := stderr st @ [ln]\<rparr>))"
  using logging_cases [of e st LevelInfo format v]
  by (auto simp: Info_def returning_def)

lemma Warn_outcome:
  "Warn e st format v = Return st \<or> (\<exists>err. Warn e st format v = Panic err st) \<or>
   (\<exists>ln. Warn e st format v = Return (st\<lparr>stderr := stderr st @ [ln]\<rparr>))"
  using logging_cases [of e st LevelWarn format v]
  by (auto simp: Warn_def returning_def)

lemma Error_outcome:
  "Error e st format v = Return st \<or> (\<exists>err. Error e st format v = Panic err st) \<or>
   (\<exists>ln. Error e st format v = Return (st\<lparr>stderr := stderr st @ [ln]\<rparr>))"
  using logging_cases [of e st LevelError format v]
  by (auto simp: Error_def returning_def)

lemma Fatal_outcome:
  "(\<exists>err. Fatal e st format v = Panic err st) \<or>
   (\<exists>ln. Fatal e st format v = Exit 1 (st\<lparr>stderr := stderr st @ [ln]\<rparr>))"
  using logging_cases [of e st LevelFatal format v]
  by (auto simp: Fatal_def LevelFatal_def)

lemma EnableDebug_eq:
  "\<exists>c. logging_caller e = Inr c \<and>
     EnableDebug e st =
       Return (st\<lparr>logLevel := LevelDebug,
                  stderr := stderr st @
                    [Fprintf e (logging_prefix e st LevelInfo @ c @ ''Debug mode enabled'' @
                       [CHR 0x0A]) []]\<rparr>)"
  using logging_eq [of e "st\<lparr>logLevel := LevelDebug\<rparr>" LevelInfo "''Debug mode enabled''" "[]"]
  by (auto simp: EnableDebug_def returning_def logging_prefix_def fmt_Fprintf_no_operands)

lemma step_final:
  "\<exists>st'. final (step e st c) = Some st' \<and>
     showTime st' = (c \<noteq> CallDisableTime \<and> showTime st)"
proof (cases c)
  case CallDisableTime
  then show ?thesis by (simp add: DisableTime_def)
next
  case CallEnableDebug
  with EnableDebug_eq [of e st] show ?thesis by auto
next
  case (CallSetLogLevel l)
  then show ?thesis by (simp add: SetLogLevel_def)
next
  case (CallDebug format v)
  with Debug_outcome [of e st format v] show ?thesis by auto
next
  case (CallInfo format v)
  with Info_outcome [of e st format v] show ?thesis by auto
next
  case (CallWarn format v)
  with Warn_outcome [of e st format v] show ?thesis by auto
next
  case (CallError format v)
  with Error_outcome [of e st format v] show ?thesis by auto
next
  case (CallFatal format v)
  with Fatal_outcome [of e st format v] show ?thesis by auto
qed

lemma run_keeps_showTime_False:
  "\<not> showTime st \<Longrightarrow> \<exists>st'. final (run st cs) = Some st' \<and> \<not> showTime st'"
proof (induction cs arbitrary: st)
  case Nil
  then show ?case by simp
next
  case (Cons x cs)
  obtain e c where x: "x = (e, c)" by (cases x)
  obtain st1 where st1: "final (step e st c) = Some st1" "\<not> showTime st1"
    using step_final [of e st c] Cons.prems by auto
  show ?case
  proof (cases "step e st c")
    case (Return st2)
    with st1 have "\<not> showTime st2" by simp
    from Cons.IH [OF this] Return x show ?thesis by simp
  next
    case (Exit n st2)
    with st1 x show ?thesis by simp
  next
    case (Panic err st2)
    with st1 x show ?thesis by simp
  qed
qed


lemma logging_clock:
  assumes "\<not> showTime st" and "same_but_clock e e'"
  shows "logging e' st l format v = logging e st l format v"
proof -
  from assms(2) obtain t where e': "e' = e\<lparr>now := t\<rparr>"
    unfolding same_but_clock_def by blast
  have c: "logging_caller (e\<lparr>now := t\<rparr>) = logging_caller e"
    by (simp add: logging_caller_eq split: prod.splits)
  have p: "logging_prefix (e\<lparr>now := t\<rparr>) st l = logging_prefix e st l"
    using assms(1) by (simp add: logging_prefix_def)
  have f: "fmt_Fprintf (e\<lparr>now := t\<rparr>) = fmt_Fprintf e"
    by (rule ext)+ (simp add: fmt_Fprintf_def split: option.splits)
  show ?thesis
    unfolding e' by (simp add: logging_def c p f split: sum.splits)
qed

lemma step_clock:
  assumes "\<not> showTime st" and "same_but_clock e e'"
  shows "step e' st c = step e st c"
proof -
  have st': "\<not> showTime (st\<lparr>logLevel := LevelDebug\<rparr>)" using assms(1) by simp
  show ?thesis
    by (cases c)
      (simp_all add: EnableDebug_def Debug_def Info_def Warn_def Error_def Fatal_def
        logging_clock [OF assms] logging_clock [OF st' assms(2)])
qed

lemma run_clock:
  assumes "list_all2 (\<lambda>(e, c) (e', c'). same_but_clock e e' \<and> c = c') cs cs'"
  shows "\<not> showTime st \<Longrightarrow> run st cs' = run st cs"
  using assms
proof (induction cs cs' arbitrary: st rule: list_all2_induct)
  case Nil
  then show ?case by simp
next
  case (Cons x xs y ys)
  obtain e c where x: "x = (e, c)" by (cases x)
  obtain e' c' where y: "y = (e', c')" by (cases y)
  from Cons.hyps(1) x y have sc: "same_but_clock e e'" and cc: "c' = c" by auto
  have s: "step e' st c = step e st c"
    using step_clock [OF Cons.prems sc] .
  show ?case
  proof (cases "step e st c")
    case (Return st2)
    with step_final [of e st c] Cons.prems have "\<not> showTime st2" by auto
    from Cons.IH [OF this] Return s x y cc show ?thesis by simp
  next
    case (Exit n st2)
    with s x y cc show ?thesis by simp
  next
    case (Panic err st2)
    with s x y cc show ?thesis by simp
  qed
qed

lemma level_tags:
  "map_index (colorable nc) LevelFatal = color_wrap nc FgRed ''FATAL'' \<and>
   map_index (colorable nc) LevelError = color_wrap nc FgHiRed ''ERROR'' \<and>
   map_index (colorable nc) LevelWarn = color_wrap nc FgYellow ''WARN'' \<and>
   map_index (colorable nc) LevelInfo = color_wrap nc FgBlue ''INFO'' \<and>
   map_index (colorable nc) LevelDebug = color_wrap nc FgWhite ''DEBUG''"
  by (simp add: map_index_def colorable_def LogLevel_String_def Level_defs)

text \<open>
  The text of the variable \<open>caller\<close> holds the last segment of the path and of the
  qualified name, and the segments are those of \<open>strings.Split\<close>.
\<close>

lemma caller_text_last_segments:
  "(2 < length (stack e) \<and>
    stack e ! 2 = \<lparr>frame_pc = p, frame_file = path, frame_line = line\<rparr> \<and>
    p \<noteq> 0 \<and> funcs e p = Some name \<longrightarrow>
      logging_caller e =
        Inr (''['' @ color_wrap (NoColor e) FgMagenta (last_segment CHR ''/'' path) @ '':'' @
             itoa line @ '':'' @
             color_wrap (NoColor e) FgMagenta (last_segment CHR ''.'' name) @ ''] '')) \<and>
   last_segment sep s = last (strings_Split s sep) \<and>
   strings_Join (strings_Split s sep) sep = s \<and>
   (\<forall>x \<in> set (strings_Split s sep). sep \<notin> set x) \<and>
   (\<exists>pre. s = pre @ last_segment sep s \<and> (pre = [] \<or> last pre = sep)) \<and>
   sep \<notin> set (last_segment sep s) \<and>
   (sep \<notin> set s \<longrightarrow> last_segment sep s = s)"
proof -
  have "logging_caller e =
        Inr (''['' @ color_wrap (NoColor e) FgMagenta (last_segment CHR ''/'' path) @ '':'' @
             itoa line @ '':'' @
             color_wrap (NoColor e) FgMagenta (last_segment CHR ''.'' name) @ ''] '')"
    if "2 < length (stack e)"
      and "stack e ! 2 = \<lparr>frame_pc = p, frame_file = path, frame_line = line\<rparr>"
      and "p \<noteq> 0" and "funcs e p = Some name"
    using that
    by (simp add: logging_caller_eq runtime_Caller_def runtime_FuncForPC_def Func_Name_def)
  with strings_Split_last [of s sep] strings_Split_Join [of s sep]
    strings_Split_segments [of s sep] last_segment_suffix [of s sep]
    last_segment_no_sep [of sep s] last_segment_whole [of sep s]
  show ?thesis by simp
qed

lemma prepend_Nil: "prepend [] r = r"
  by (simp add: prepend_def split: sum.splits)

lemma prepend_prepend: "prepend s (prepend t r) = prepend (s @ t) r"
  by (simp add: prepend_def split: sum.splits)

lemma doPrintf_literal:
  "CHR ''%'' \<notin> set pre \<Longrightarrow> doPrintf (pre @ f) a = prepend pre (doPrintf f a)"
proof (induction pre)
  case Nil
  show ?case by (simp add: prepend_Nil)
next
  case (Cons c pre)
  then have c: "c \<noteq> CHR ''%''" and IH: "doPrintf (pre @ f) a = prepend pre (doPrintf f a)"
    by auto
  show ?case
  proof (cases "pre @ f")
    case Nil
    with c show ?thesis by simp
  next
    case (Cons x xs)
    with c IH show ?thesis by (simp add: prepend_prepend)
  qed
qed

lemma doPrintf_plain_text:
  "CHR ''%'' \<notin> set format \<Longrightarrow> doPrintf format [] = Inr format"
  using doPrintf_literal [of format "[]" "[]"]
  by (simp add: extraArgs_def prepend_def)

lemma map_index_colorable_plain:
  "l \<in> {LevelFatal, LevelError, LevelWarn, LevelInfo, LevelDebug} \<Longrightarrow>
   map_index (colorable True) l = LogLevel_String l"
  by (auto simp: map_index_def colorable_def color_wrap_def Level_defs)

text \<open>
  With this formatter and colours off, the line has the shape of the specification
  when the rendered file and function names hold no percent sign and the newline comes
  out last, after the message.
\<close>

lemma logging_line_shape:
  assumes fmt: "Fprintf e = doPrintf_text" "Fprintf_panic e = doPrintf_panic"
    and plain: "NoColor e" "NoColorInit e"
    and lvl: "l \<in> {LevelFatal, LevelError, LevelWarn, LevelInfo, LevelDebug}"
    and site: "runtime_Caller (stack e) 2 = (p, path, line, ok)"
    and nofile: "CHR ''%'' \<notin> set (last_segment CHR ''/'' path)"
    and nofunc: "CHR ''%'' \<notin> set (last_segment CHR ''.'' (Func_Name (runtime_FuncForPC (funcs e) p)))"
    and msg: "doPrintf format v = Inr m"
    and nl: "doPrintf (format @ [CHR 0x0A]) v = Inr (m @ [CHR 0x0A])"
  shows "logging e st l format v = Inr (st\<lparr>stderr := stderr st @ [spec_line e st l format v]\<rparr>)"
proof -
  let ?c = "''['' @ last_segment CHR ''/'' path @ '':'' @ itoa line @ '':'' @
        last_segment CHR ''.'' (Func_Name (runtime_FuncForPC (funcs e) p)) @ ''] ''"
  let ?p = "(if showTime st then ''['' @ time_Format (now e) @ ''] '' else []) @
     ''['' @ LogLevel_String l @ ''] ''"
  have c: "logging_caller e = Inr ?c"
    using site plain by (simp add: logging_caller_eq color_wrap_def)
  have p: "logging_prefix e st l = ?p"
    using plain map_index_colorable_plain [OF lvl]
    by (simp add: logging_prefix_def color_wrap_def)
  have "CHR ''%'' \<notin> set (?p @ ?c)"
    using nofile nofunc
    by (simp add: itoa_no_percent time_Format_no_percent LogLevel_String_no_percent)
  then have "doPrintf ((?p @ ?c) @ format @ [CHR 0x0A]) v =
      prepend (?p @ ?c) (doPrintf (format @ [CHR 0x0A]) v)"
    by (rule doPrintf_literal)
  then have d: "doPrintf (?p @ ?c @ format @ [CHR 0x0A]) v = Inr ((?p @ ?c) @ m @ [CHR 0x0A])"
    by (simp add: nl prepend_def)
  have "fmt_Fprintf e (?p @ ?c @ format @ [CHR 0x0A]) v = Inr ((?p @ ?c) @ m @ [CHR 0x0A])"
    unfolding fmt_Fprintf_def fmt doPrintf_text_def doPrintf_panic_def d by simp
  moreover have "spec_line e st l format v = (?p @ ?c) @ m @ [CHR 0x0A]"
    using site by (simp add: spec_line_def fmt doPrintf_text_def msg)
  ultimately show ?thesis
    by (simp add: logging_def c p)
qed

section \<open>The claims\<close>

text \<open>
  C10. The name of a level is defined for every value of the type: the five levels have
  their short names, and every other value is named UNKNOWN.
\<close>

theorem LogLevel_String_total:
  "LogLevel_String LevelFatal = ''FATAL'' \<and>
   LogLevel_String LevelError = ''ERROR'' \<and>
   LogLevel_String LevelWarn = ''WARN'' \<and>
   LogLevel_String LevelInfo = ''INFO'' \<and>
   LogLevel_String LevelDebug = ''DEBUG'' \<and>
   (l \<notin> {LevelFatal, LevelError, LevelWarn, LevelInfo, LevelDebug} \<longrightarrow>
      LogLevel_String l = ''UNKNOWN'')"
  by (simp add: LogLevel_String_def Level_defs)

theorem LogLevel_String_total_witness:
  "LogLevel_String 5 = ''UNKNOWN'' \<and> LogLevel_String 4294967295 = ''UNKNOWN'' \<and>
   LogLevel_String LevelWarn = ''WARN''"
  using LogLevel_String_total [of 5] LogLevel_String_total [of 4294967295]
  by (simp add: Level_defs)

text \<open>
  C1. For each of the five severities and every threshold the state can hold, values
  beyond Debug included, the level-named call returns with the state untouched exactly
  when the ordinal of its severity is above the ordinal of the threshold. Otherwise it
  hands its own level to logging, and it emits one line exactly when the formatter
  returns: the line is the formatter's text for the prefix with the tag of that level,
  the call site, the format and a newline. When the formatter lets a panic of an
  operand through, nothing is written and the panic reaches the caller.
\<close>

theorem level_gate:
  "\<exists>c. logging_caller e = Inr c \<and>
     Debug e st format v =
       (if unat LevelDebug \<le> unat (logLevel st)
        then (case fmt_Fprintf e (logging_prefix e st LevelDebug @ c @ format @ [CHR 0x0A]) v of
                Inl err \<Rightarrow> Panic err st
              | Inr ln \<Rightarrow> Return (st\<lparr>stderr := stderr st @ [ln]\<rparr>))
        else Return st) \<and>
     Info e st format v =
       (if unat LevelInfo \<le> unat (logLevel st)
        then (case fmt_Fprintf e (logging_prefix e st LevelInfo @ c @ format @ [CHR 0x0A]) v of
                Inl err \<Rightarrow> Panic err st
              | Inr ln \<Rightarrow> Return (st\<lparr>stderr := stderr st @ [ln]\<rparr>))
        else Return st) \<and>
     Warn e st format v =
       (if unat LevelWarn \<le> unat (logLevel st)
        then (case fmt_Fprintf e (logging_prefix e st LevelWarn @ c @ format @ [CHR 0x0A]) v of
                Inl err \<Rightarrow> Panic err st
              | Inr ln \<Rightarrow> Return (st\<lparr>stderr := stderr st @ [ln]\<rparr>))
        else Return st) \<and>
     Error e st format v =
       (if unat LevelError \<le> unat (logLevel st)
        then (case fmt_Fprintf e (logging_prefix e st LevelError @ c @ format @ [CHR 0x0A]) v of
                Inl err \<Rightarrow> Panic err st
              | Inr ln \<Rightarrow> Return (st\<lparr>stderr := stderr st @ [ln]\<rparr>))
        else Return st) \<and>
     Fatal e st format v =
       (if unat LevelFatal \<le> unat (logLevel st)
        then (case fmt_Fprintf e (logging_prefix e st LevelFatal @ c @ format @ [CHR 0x0A]) v of
                Inl err \<Rightarrow> Panic err st
              | Inr ln \<Rightarrow> Exit 1 (st\<lparr>stderr := stderr st @ [ln]\<rparr>))
        else Return st) \<and>
     (emits st (Debug e st format v) \<longleftrightarrow>
        unat LevelDebug \<le> unat (logLevel st) \<and>
        (\<exists>ln. fmt_Fprintf e (logging_prefix e st LevelDebug @ c @ format @ [CHR 0x0A]) v = Inr ln)) \<and>
     (emits st (Info e st format v) \<longleftrightarrow>
        unat LevelInfo \<le> unat (logLevel st) \<and>
        (\<exists>ln. fmt_Fprintf e (logging_prefix e st LevelInfo @ c @ format @ [CHR 0x0A]) v = Inr ln)) \<and>
     (emits st (Warn e st format v) \<longleftrightarrow>
        unat LevelWarn \<le> unat (logLevel st) \<and>
        (\<exists>ln. fmt_Fprintf e (logging_prefix e st LevelWarn @ c @ format @ [CHR 0x0A]) v = Inr ln)) \<and>
     (emits st (Error e st format v) \<longleftrightarrow>
        unat LevelError \<le> unat (logLevel st) \<and>
        (\<exists>ln. fmt_Fprintf e (logging_prefix e st LevelError @ c @ format @ [CHR 0x0A]) v = Inr ln)) \<and>
     (emits st (Fatal e st format v) \<longleftrightarrow>
        unat LevelFatal \<le> unat (logLevel st) \<and>
        (\<exists>ln. fmt_Fprintf e (logging_prefix e st LevelFatal @ c @ format @ [CHR 0x0A]) v = Inr ln)) \<and>
     (Debug e st format v = Return st \<longleftrightarrow> \<not> unat LevelDebug \<le> unat (logLevel st)) \<and>
     (Info e st format v = Return st \<longleftrightarrow> \<not> unat LevelInfo \<le> unat (logLevel st)) \<and>
     (Warn e st format v = Return st \<longleftrightarrow> \<not> unat LevelWarn \<le> unat (logLevel st)) \<and>
     (Error e st format v = Return st \<longleftrightarrow> \<not> unat LevelError \<le> unat (logLevel st)) \<and>
     (Fatal e st format v = Return st \<longleftrightarrow> \<not> unat LevelFatal \<le> unat (logLevel st)) \<and>
     map_index (colorable (NoColorInit e)) LevelDebug = color_wrap (NoColorInit e) FgWhite ''DEBUG'' \<and>
     map_index (colorable (NoColorInit e)) LevelInfo = color_wrap (NoColorInit e) FgBlue ''INFO'' \<and>
     map_index (colorable (NoColorInit e)) LevelWarn = color_wrap (NoColorInit e) FgYellow ''WARN'' \<and>
     map_index (colorable (NoColorInit e)) LevelError = color_wrap (NoColorInit e) FgHiRed ''ERROR'' \<and>
     map_index (colorable (NoColorInit e)) LevelFatal = color_wrap (NoColorInit e) FgRed ''FATAL'' \<and>
     unat LevelFatal = 0 \<and> unat LevelError = 1 \<and> unat LevelWarn = 2 \<and>
     unat LevelInfo = 3 \<and> unat LevelDebug = 4"
proof -
  obtain c where c: "logging_caller e = Inr c" using logging_caller_total by blast
  note d = Debug_pinned [OF c, of st format v]
  note i = Info_pinned [OF c, of st format v]
  note w = Warn_pinned [OF c, of st format v]
  note r = Error_pinned [OF c, of st format v]
  have f: "Fatal e st format v =
       (if unat LevelFatal \<le> unat (logLevel st)
        then (case fmt_Fprintf e (logging_prefix e st LevelFatal @ c @ format @ [CHR 0x0A]) v of
                Inl err \<Rightarrow> Panic err st
              | Inr ln \<Rightarrow> Exit 1 (st\<lparr>stderr := stderr st @ [ln]\<rparr>))
        else Return st)"
    using Fatal_pinned [OF c, of st format v] by (simp add: LevelFatal_def)
  have fe: "(emits st (Fatal e st format v) \<longleftrightarrow>
        unat LevelFatal \<le> unat (logLevel st) \<and>
        (\<exists>ln. fmt_Fprintf e (logging_prefix e st LevelFatal @ c @ format @ [CHR 0x0A]) v = Inr ln)) \<and>
      (Fatal e st format v = Return st \<longleftrightarrow> \<not> unat LevelFatal \<le> unat (logLevel st))"
    unfolding Fatal_pinned [OF c, of st format v]
    by (simp add: LevelFatal_def emits_Exit_append not_emits_Panic split: sum.splits)
  have n: "unat LevelFatal = 0 \<and> unat LevelError = 1 \<and> unat LevelWarn = 2 \<and>
      unat LevelInfo = 3 \<and> unat LevelDebug = 4"
    by (simp add: Level_defs)
  from c d i w r f fe n gated_outcome [OF d] gated_outcome [OF i] gated_outcome [OF w]
    gated_outcome [OF r] level_tags [of "NoColorInit e"]
  show ?thesis by blast
qed

theorem level_gate_witness:
  "Debug demo_env (SetLogLevel 7 init_state) ''x=%d'' [IntArg 5] =
     Return ((SetLogLevel 7 init_state)\<lparr>stderr :=
       [''[2021-03-07T09:05:00] [DEBUG] [main.go:7:main] x=5'' @ [CHR 0x0A]]\<rparr>) \<and>
   Debug demo_env init_state ''x=%d'' [IntArg 5] = Return init_state \<and>
   Info demo_env init_state ''x=%d'' [IntArg 5] =
     Return (init_state\<lparr>stderr :=
       [''[2021-03-07T09:05:00] [INFO] [main.go:7:main] x=5'' @ [CHR 0x0A]]\<rparr>) \<and>
   unat (logLevel (SetLogLevel 7 init_state)) = 7 \<and> unat LevelDebug = 4"
proof -
  from level_gate [of demo_env init_state "''x=%d''" "[IntArg 5]"]
  have "Debug demo_env init_state ''x=%d'' [IntArg 5] = Return init_state \<longleftrightarrow>
      \<not> unat LevelDebug \<le> unat (logLevel init_state)"
    and n: "unat LevelDebug = 4"
    by blast+
  then have a: "Debug demo_env init_state ''x=%d'' [IntArg 5] = Return init_state"
    by (simp add: init_state_def LevelInfo_def)
  have b: "Debug demo_env (SetLogLevel 7 init_state) ''x=%d'' [IntArg 5] =
     Return ((SetLogLevel 7 init_state)\<lparr>stderr :=
       [''[2021-03-07T09:05:00] [DEBUG] [main.go:7:main] x=5'' @ [CHR 0x0A]]\<rparr>)"
    by code_simp
  have c: "Info demo_env init_state ''x=%d'' [IntArg 5] =
     Return (init_state\<lparr>stderr :=
       [''[2021-03-07T09:05:00] [INFO] [main.go:7:main] x=5'' @ [CHR 0x0A]]\<rparr>)"
    by code_simp
  from a b c n show ?thesis
    by (simp add: SetLogLevel_def init_state_def)
qed

theorem level_gate_counterexample:
  "unat LevelInfo \<le> unat (logLevel init_state) \<and>
   \<not> emits init_state (Info demo_env init_state ''%v'' [bad_operand]) \<and>
   final (Info demo_env init_state ''%v'' [bad_operand]) = Some init_state"
proof -
  have a: "Info demo_env init_state ''%v'' [bad_operand] = Panic (Raised ''inner'') init_state"
    by code_simp
  have "unat LevelInfo \<le> unat (logLevel init_state)"
    by (simp add: init_state_def Level_defs)
  with a show ?thesis by (simp add: not_emits_Panic)
qed

text \<open>
  C2. Fatal passes through the same gate as the other severities, but the gate cannot
  fail: Fatal has ordinal 0 and no threshold is below it. Under every threshold the
  call never returns to its caller: when the formatter returns it emits one line, the
  formatter's text for the prefix with the FATAL tag, the call site, the format and a
  newline, and ends the process with exit status 1; when the formatter lets a panic of
  an operand through, nothing is written, the process does not exit, and the panic
  reaches the caller.
\<close>

theorem Fatal_emits_and_exits:
  "\<exists>c. logging_caller e = Inr c \<and>
     Fatal e st format v =
       (if unat LevelFatal \<le> unat (logLevel st)
        then (case fmt_Fprintf e (logging_prefix e st LevelFatal @ c @ format @ [CHR 0x0A]) v of
                Inl err \<Rightarrow> Panic err st
              | Inr ln \<Rightarrow> Exit 1 (st\<lparr>stderr := stderr st @ [ln]\<rparr>))
        else Return st) \<and>
     unat LevelFatal = 0 \<and>
     (\<forall>T :: LogLevel. unat LevelFatal \<le> unat T) \<and>
     (emits st (Fatal e st format v) \<and> exit_status (Fatal e st format v) = Some 1 \<longleftrightarrow>
        (\<exists>ln. fmt_Fprintf e (logging_prefix e st LevelFatal @ c @ format @ [CHR 0x0A]) v = Inr ln)) \<and>
     (emits st (Fatal e st format v) \<longleftrightarrow> exit_status (Fatal e st format v) = Some 1) \<and>
     (\<forall>st'. Fatal e st format v \<noteq> Return st') \<and>
     map_index (colorable (NoColorInit e)) LevelFatal = color_wrap (NoColorInit e) FgRed ''FATAL''"
proof -
  obtain c where c: "logging_caller e = Inr c" using logging_caller_total by blast
  note f = Fatal_pinned [OF c, of st format v]
  have 1: "Fatal e st format v =
       (if unat LevelFatal \<le> unat (logLevel st)
        then (case fmt_Fprintf e (logging_prefix e st LevelFatal @ c @ format @ [CHR 0x0A]) v of
                Inl err \<Rightarrow> Panic err st
              | Inr ln \<Rightarrow> Exit 1 (st\<lparr>stderr := stderr st @ [ln]\<rparr>))
        else Return st)"
    using f by (simp add: LevelFatal_def)
  have 2: "unat LevelFatal = 0 \<and> (\<forall>T :: LogLevel. unat LevelFatal \<le> unat T)"
    by (simp add: LevelFatal_def)
  have 3: "(emits st (Fatal e st format v) \<and> exit_status (Fatal e st format v) = Some 1 \<longleftrightarrow>
        (\<exists>ln. fmt_Fprintf e (logging_prefix e st LevelFatal @ c @ format @ [CHR 0x0A]) v = Inr ln)) \<and>
     (emits st (Fatal e st format v) \<longleftrightarrow> exit_status (Fatal e st format v) = Some 1) \<and>
     (\<forall>st'. Fatal e st format v \<noteq> Return st')"
    unfolding f
    by (simp add: emits_Exit_append not_emits_Panic split: sum.splits)
  from c 1 2 3 level_tags [of "NoColorInit e"] show ?thesis by blast
qed

theorem Fatal_emits_and_exits_witness:
  "emits init_state (Fatal demo_env init_state ''boom'' []) \<and>
   exit_status (Fatal demo_env init_state ''boom'' []) = Some 1 \<and>
   Fatal demo_env init_state ''boom'' [] =
     Exit 1 (init_state\<lparr>stderr :=
       [''[2021-03-07T09:05:00] [FATAL] [main.go:7:main] boom'' @ [CHR 0x0A]]\<rparr>)"
proof -
  have a: "Fatal demo_env init_state ''boom'' [] =
     Exit 1 (init_state\<lparr>stderr :=
       [''[2021-03-07T09:05:00] [FATAL] [main.go:7:main] boom'' @ [CHR 0x0A]]\<rparr>)"
    by code_simp
  from Fatal_emits_and_exits [of demo_env init_state "''boom''" "[]"]
  have "emits init_state (Fatal demo_env init_state ''boom'' []) \<longleftrightarrow>
      exit_status (Fatal demo_env init_state ''boom'' []) = Some 1"
    by blast
  with a show ?thesis by simp
qed

theorem Fatal_emits_and_exits_counterexample:
  "Fatal demo_env init_state ''%v'' [bad_operand] = Panic (Raised ''inner'') init_state \<and>
   \<not> emits init_state (Fatal demo_env init_state ''%v'' [bad_operand]) \<and>
   exit_status (Fatal demo_env init_state ''%v'' [bad_operand]) = None"
proof -
  have a: "Fatal demo_env init_state ''%v'' [bad_operand] = Panic (Raised ''inner'') init_state"
    by code_simp
  then show ?thesis by (simp add: not_emits_Panic)
qed

text \<open>
  C3. EnableDebug sets the threshold to Debug and writes exactly one line, at level
  Info, whatever the threshold was before the call: the announcement goes straight to
  logging, past every gate.
\<close>

theorem EnableDebug_announces:
  "\<exists>c. logging_caller e = Inr c \<and>
     EnableDebug e st =
       Return (st\<lparr>logLevel := LevelDebug,
                  stderr := stderr st @
                    [Fprintf e (logging_prefix e st LevelInfo @ c @ ''Debug mode enabled'' @
                       [CHR 0x0A]) []]\<rparr>) \<and>
     emits (SetLogLevel LevelDebug st) (EnableDebug e st) \<and>
     logging_prefix e st LevelInfo =
       (if showTime st
        then ''['' @ color_wrap (NoColor e) FgCyan (time_Format (now e)) @ ''] ['' @
             color_wrap (NoColorInit e) FgBlue ''INFO'' @ ''] ''
        else ''['' @ color_wrap (NoColorInit e) FgBlue ''INFO'' @ ''] '')"
proof -
  obtain c where c: "logging_caller e = Inr c"
    and r: "EnableDebug e st =
       Return (st\<lparr>logLevel := LevelDebug,
                  stderr := stderr st @
                    [Fprintf e (logging_prefix e st LevelInfo @ c @ ''Debug mode enabled'' @
                       [CHR 0x0A]) []]\<rparr>)"
    using EnableDebug_eq by blast
  have "emits (SetLogLevel LevelDebug st) (EnableDebug e st)"
    unfolding r by (simp add: emits_def SetLogLevel_def)
  moreover have "logging_prefix e st LevelInfo =
       (if showTime st
        then ''['' @ color_wrap (NoColor e) FgCyan (time_Format (now e)) @ ''] ['' @
             color_wrap (NoColorInit e) FgBlue ''INFO'' @ ''] ''
        else ''['' @ color_wrap (NoColorInit e) FgBlue ''INFO'' @ ''] '')"
    by (simp add: logging_prefix_def colorable_def map_index_def LogLevel_String_def Level_defs)
  ultimately show ?thesis using c r by blast
qed

theorem EnableDebug_announces_witness:
  "EnableDebug demo_env (SetLogLevel LevelFatal init_state) =
     Return \<lparr>logLevel = LevelDebug, showTime = True,
       stderr = [''[2021-03-07T09:05:00] [INFO] [main.go:7:main] Debug mode enabled'' @
         [CHR 0x0A]]\<rparr> \<and>
   emits (SetLogLevel LevelDebug (SetLogLevel LevelFatal init_state))
     (EnableDebug demo_env (SetLogLevel LevelFatal init_state))"
proof -
  have "EnableDebug demo_env (SetLogLevel LevelFatal init_state) =
     Return \<lparr>logLevel = LevelDebug, showTime = True,
       stderr = [''[2021-03-07T09:05:00] [INFO] [main.go:7:main] Debug mode enabled'' @
         [CHR 0x0A]]\<rparr>"
    by code_simp
  with EnableDebug_announces [of demo_env "SetLogLevel LevelFatal init_state"] show ?thesis
    by blast
qed

text \<open>
  C5. When the gate fails, Debug, Info, Warn and Error return with the state exactly as
  it was, nothing written. And no level-named call, whether it emits or not, changes
  the threshold or the timestamp switch.
\<close>

theorem gate_failure_is_noop:
  "(\<not> unat LevelDebug \<le> unat (logLevel st) \<longrightarrow> Debug e st format v = Return st) \<and>
   (\<not> unat LevelInfo \<le> unat (logLevel st) \<longrightarrow> Info e st format v = Return st) \<and>
   (\<not> unat LevelWarn \<le> unat (logLevel st) \<longrightarrow> Warn e st format v = Return st) \<and>
   (\<not> unat LevelError \<le> unat (logLevel st) \<longrightarrow> Error e st format v = Return st) \<and>
   (\<forall>out \<in> {Debug e st format v, Info e st format v, Warn e st format v,
              Error e st format v, Fatal e st format v}.
      \<exists>st'. final out = Some st' \<and> logLevel st' = logLevel st \<and> showTime st' = showTime st)"
proof -
  have d: "(\<not> unat LevelDebug \<le> unat (logLevel st) \<longrightarrow> Debug e st format v = Return st) \<and>
      (\<exists>st'. final (Debug e st format v) = Some st' \<and> logLevel st' = logLevel st \<and>
         showTime st' = showTime st)"
  proof
    show "\<not> unat LevelDebug \<le> unat (logLevel st) \<longrightarrow> Debug e st format v = Return st"
      by (simp add: Debug_def word_le_nat_alt)
    show "\<exists>st'. final (Debug e st format v) = Some st' \<and> logLevel st' = logLevel st \<and>
         showTime st' = showTime st"
      using Debug_outcome [of e st format v] by auto
  qed
  have i: "(\<not> unat LevelInfo \<le> unat (logLevel st) \<longrightarrow> Info e st format v = Return st) \<and>
      (\<exists>st'. final (Info e st format v) = Some st' \<and> logLevel st' = logLevel st \<and>
         showTime st' = showTime st)"
  proof
    show "\<not> unat LevelInfo \<le> unat (logLevel st) \<longrightarrow> Info e st format v = Return st"
      by (simp add: Info_def word_le_nat_alt)
    show "\<exists>st'. final (Info e st format v) = Some st' \<and> logLevel st' = logLevel st \<and>
         showTime st' = showTime st"
      using Info_outcome [of e st format v] by auto
  qed
  have w: "(\<not> unat LevelWarn \<le> unat (logLevel st) \<longrightarrow> Warn e st format v = Return st) \<and>
      (\<exists>st'. final (Warn e st format v) = Some st' \<and> logLevel st' = logLevel st \<and>
         showTime st' = showTime st)"
  proof
    show "\<not> unat LevelWarn \<le> unat (logLevel st) \<longrightarrow> Warn e st format v = Return st"
      by (simp add: Warn_def word_le_nat_alt)
    show "\<exists>st'. final (Warn e st format v) = Some st' \<and> logLevel st' = logLevel st \<and>
         showTime st' = showTime st"
      using Warn_outcome [of e st format v] by auto
  qed
  have r: "(\<not> unat LevelError \<le> unat (logLevel st) \<longrightarrow> Error e st format v = Return st) \<and>
      (\<exists>st'. final (Error e st format v) = Some st' \<and> logLevel st' = logLevel st \<and>
         showTime st' = showTime st)"
  proof
    show "\<not> unat LevelError \<le> unat (logLevel st) \<longrightarrow> Error e st format v = Return st"
      by (simp add: Error_def word_le_nat_alt)
    show "\<exists>st'. final (Error e st format v) = Some st' \<and> logLevel st' = logLevel st \<and>
         showTime st' = showTime st"
      using Error_outcome [of e st format v] by auto
  qed
  have f: "\<exists>st'. final (Fatal e st format v) = Some st' \<and> logLevel st' = logLevel st \<and>
         showTime st' = showTime st"
    using Fatal_outcome [of e st format v] by auto
  from d i w r f show ?thesis by simp
qed

theorem gate_failure_is_noop_witness:
  "Debug demo_env (SetLogLevel LevelFatal init_state) ''x=%d'' [IntArg 5] =
     Return (SetLogLevel LevelFatal init_state) \<and>
   Info demo_env (SetLogLevel LevelFatal init_state) ''x=%d'' [IntArg 5] =
     Return (SetLogLevel LevelFatal init_state) \<and>
   Warn demo_env (SetLogLevel LevelFatal init_state) ''x=%d'' [IntArg 5] =
     Return (SetLogLevel LevelFatal init_state) \<and>
   Error demo_env (SetLogLevel LevelFatal init_state) ''x=%d'' [IntArg 5] =
     Return (SetLogLevel LevelFatal init_state) \<and>
   (\<exists>st'. final (Fatal demo_env (SetLogLevel LevelFatal init_state) ''x=%d'' [IntArg 5]) =
      Some st' \<and> logLevel st' = LevelFatal \<and> showTime st')"
  using gate_failure_is_noop
    [of "SetLogLevel LevelFatal init_state" demo_env "''x=%d''" "[IntArg 5]"]
  by (simp add: SetLogLevel_def init_state_def Level_defs)

text \<open>
  C9. Once the timestamp switch is off it stays off. Every public operation leaves the
  switch as it found it, except DisableTime, which turns it off; so after any sequence
  of public operations started with the switch off, the switch is still off.
\<close>

theorem showTime_stays_false:
  "(\<exists>st'. final (step e st c) = Some st' \<and>
      showTime st' = (if c = CallDisableTime then False else showTime st)) \<and>
   (\<not> showTime st \<longrightarrow> (\<exists>st'. final (run st cs) = Some st' \<and> \<not> showTime st'))"
  using step_final [of e st c] run_keeps_showTime_False [of st cs] by auto

theorem showTime_stays_false_witness:
  "\<exists>st'. final (run (DisableTime init_state)
       [(demo_env, CallEnableDebug), (color_env, CallSetLogLevel 9),
        (demo_env, CallDebug ''x=%d'' [IntArg 5]), (lost_env, CallFatal ''boom'' []),
        (demo_env, CallInfo ''unreached'' [])]) = Some st' \<and> \<not> showTime st'"
  using showTime_stays_false [where e = demo_env and c = CallDisableTime
      and st = "DisableTime init_state" and cs =
      "[(demo_env, CallEnableDebug), (color_env, CallSetLogLevel 9),
        (demo_env, CallDebug ''x=%d'' [IntArg 5]), (lost_env, CallFatal ''boom'' []),
        (demo_env, CallInfo ''unreached'' [])]"]
  by (simp add: DisableTime_def)




text \<open>
  C8. The call site is to be rendered with the last segment of the file path, cut at the
  slashes, and the last segment of the qualified function name, cut at the dots. The
  text of the variable \<open>caller\<close> holds these segments, but logging hands that text to
  the formatter as part of the format: called from \<open>/home/dev/app/a%d.go\<close>, whose last
  segment is \<open>a%d.go\<close>, with the format \<open>hello\<close> and no operand, Info writes the file
  name as \<open>a%!d(MISSING).go\<close>.
\<close>

theorem percent_file_name_is_not_rendered:
  "runtime_Caller (stack percent_env) 2 = (13, ''/home/dev/app/a%d.go'', 7, True) \<and>
   last_segment CHR ''/'' ''/home/dev/app/a%d.go'' = ''a%d.go'' \<and>
   logging_caller percent_env = Inr ''[a%d.go:7:main] '' \<and>
   Info percent_env (DisableTime init_state) ''hello'' [] =
     Return ((DisableTime init_state)\<lparr>stderr :=
       [''[INFO] [a%!d(MISSING).go:7:main] hello'' @ [CHR 0x0A]]\<rparr>)"
proof -
  have "runtime_Caller (stack percent_env) 2 = (13, ''/home/dev/app/a%d.go'', 7, True)"
    by code_simp
  moreover have "last_segment CHR ''/'' ''/home/dev/app/a%d.go'' = ''a%d.go''"
    by code_simp
  moreover have "logging_caller percent_env = Inr ''[a%d.go:7:main] ''"
    by code_simp
  moreover have "Info percent_env (DisableTime init_state) ''hello'' [] =
     Return ((DisableTime init_state)\<lparr>stderr :=
       [''[INFO] [a%!d(MISSING).go:7:main] hello'' @ [CHR 0x0A]]\<rparr>)"
    by code_simp
  ultimately show ?thesis by simp
qed

text \<open>
  C6. DisableTime twice is DisableTime once: the states are equal, the switch is off, and
  every run that follows is the same. With the switch off the prefix of a line starts
  at the level group, and nothing written afterwards depends on what the clocks show.
\<close>

theorem DisableTime_idempotent:
  "DisableTime (DisableTime st) = DisableTime st \<and>
   \<not> showTime (DisableTime st) \<and>
   run (DisableTime (DisableTime st)) cs = run (DisableTime st) cs \<and>
   (\<exists>st'. final (run (DisableTime st) cs) = Some st' \<and> \<not> showTime st' \<and>
      logging_prefix e st' l = ''['' @ map_index (colorable (NoColorInit e)) l @ ''] '') \<and>
   (list_all2 (\<lambda>(e, c) (e', c'). same_but_clock e e' \<and> c = c') cs cs' \<longrightarrow>
      run (DisableTime st) cs' = run (DisableTime st) cs)"
proof -
  have off: "\<not> showTime (DisableTime st)" by (simp add: DisableTime_def)
  have idem: "DisableTime (DisableTime st) = DisableTime st" by (simp add: DisableTime_def)
  obtain st' where st': "final (run (DisableTime st) cs) = Some st'" "\<not> showTime st'"
    using run_keeps_showTime_False [OF off] by blast
  then have "logging_prefix e st' l = ''['' @ map_index (colorable (NoColorInit e)) l @ ''] ''"
    by (simp add: logging_prefix_def)
  with st' off idem run_clock [of cs cs' "DisableTime st"] show ?thesis by auto
qed

theorem DisableTime_idempotent_witness:
  "run (DisableTime init_state)
     [(demo_env\<lparr>now := demo_time\<lparr>t_hour := 23\<rparr>\<rparr>, CallInfo ''hello %s'' [StringArg ''world''])] =
   run (DisableTime init_state) [(demo_env, CallInfo ''hello %s'' [StringArg ''world''])] \<and>
   run (DisableTime (DisableTime init_state))
     [(demo_env, CallInfo ''hello %s'' [StringArg ''world''])] =
   Return \<lparr>logLevel = LevelInfo, showTime = False,
     stderr = [''[INFO] [main.go:7:main] hello world'' @ [CHR 0x0A]]\<rparr>"
proof -
  have "list_all2 (\<lambda>(e, c) (e', c'). same_but_clock e e' \<and> c = c')
      [(demo_env, CallInfo ''hello %s'' [StringArg ''world''])]
      [(demo_env\<lparr>now := demo_time\<lparr>t_hour := 23\<rparr>\<rparr>, CallInfo ''hello %s'' [StringArg ''world''])]"
    by (simp add: same_but_clock_def)
  with DisableTime_idempotent [where st = init_state
      and cs = "[(demo_env, CallInfo ''hello %s'' [StringArg ''world''])]"
      and cs' = "[(demo_env\<lparr>now := demo_time\<lparr>t_hour := 23\<rparr>\<rparr>,
                   CallInfo ''hello %s'' [StringArg ''world''])]"]
  have a: "run (DisableTime init_state)
     [(demo_env\<lparr>now := demo_time\<lparr>t_hour := 23\<rparr>\<rparr>, CallInfo ''hello %s'' [StringArg ''world''])] =
     run (DisableTime init_state) [(demo_env, CallInfo ''hello %s'' [StringArg ''world''])]"
    and b: "run (DisableTime (DisableTime init_state))
        [(demo_env, CallInfo ''hello %s'' [StringArg ''world''])] =
      run (DisableTime init_state) [(demo_env, CallInfo ''hello %s'' [StringArg ''world''])]"
    by blast+
  have "run (DisableTime init_state) [(demo_env, CallInfo ''hello %s'' [StringArg ''world''])] =
   Return \<lparr>logLevel = LevelInfo, showTime = False,
     stderr = [''[INFO] [main.go:7:main] hello world'' @ [CHR 0x0A]]\<rparr>"
    by code_simp
  with a b show ?thesis by simp
qed

text \<open>
  C4. Every emitted line is to have the shape
  \<open>[<timestamp>] [<LEVEL>] [<file>:<line>:<func>] <message>\<close> with a newline, the first
  group left out when timestamps are off. The code hands prefix and call site to the
  formatter as part of the format, so a percent sign in the file name is read as a verb:
  called from \<open>a%d.go\<close> with the format \<open>x=%d\<close> and the operand 5, Info writes the 5
  into the file name and reports the verb of the message as missing its operand.
\<close>

theorem percent_in_file_name_is_a_verb:
  "Info percent_env (DisableTime init_state) ''x=%d'' [IntArg 5] =
     Return ((DisableTime init_state)\<lparr>stderr :=
       [''[INFO] [a5.go:7:main] x=%!d(MISSING)'' @ [CHR 0x0A]]\<rparr>) \<and>
   spec_line percent_env (DisableTime init_state) LevelInfo ''x=%d'' [IntArg 5] =
     ''[INFO] [a%d.go:7:main] x=5'' @ [CHR 0x0A]"
proof -
  have "Info percent_env (DisableTime init_state) ''x=%d'' [IntArg 5] =
     Return ((DisableTime init_state)\<lparr>stderr :=
       [''[INFO] [a5.go:7:main] x=%!d(MISSING)'' @ [CHR 0x0A]]\<rparr>)"
    by code_simp
  moreover have "spec_line percent_env (DisableTime init_state) LevelInfo ''x=%d'' [IntArg 5] =
     ''[INFO] [a%d.go:7:main] x=5'' @ [CHR 0x0A]"
    by code_simp
  ultimately show ?thesis by simp
qed

end
